theory Spec2Isabelle
  imports Complex_Main "HOL-Library.Word"
begin

section \<open>Strings and class lists\<close>

text \<open>
  A JavaScript string is a sequence of UTF-16 code units; \<open>.length\<close> counts code units.
  String literals of the script are ASCII, apart from the two menu glyphs.
\<close>

type_synonym jschar = "16 word"
type_synonym jsstring = "jschar list"

definition str :: "string \<Rightarrow> jsstring" where
  "str s = map (\<lambda>c. of_char c) s"

text \<open>
  An element's \<open>classList\<close> is an ordered list of tokens: \<open>add\<close> appends a token that is
  not yet there, \<open>remove\<close> deletes it, \<open>toggle\<close> removes it when present and adds it
  otherwise.
\<close>

definition contains :: "jsstring list \<Rightarrow> jsstring \<Rightarrow> bool" where
  "contains cl tok = (tok \<in> set cl)"

definition classList_add :: "jsstring list \<Rightarrow> jsstring \<Rightarrow> jsstring list" where
  "classList_add cl tok = (if contains cl tok then cl else cl @ [tok])"

definition classList_remove :: "jsstring list \<Rightarrow> jsstring \<Rightarrow> jsstring list" where
  "classList_remove cl tok = filter (\<lambda>t. t \<noteq> tok) cl"

definition classList_toggle :: "jsstring list \<Rightarrow> jsstring \<Rightarrow> jsstring list" where
  "classList_toggle cl tok =
     (if contains cl tok then classList_remove cl tok else classList_add cl tok)"

section \<open>Sticky header\<close>

text \<open>
  \<open>header = q('.site-header')\<close> may be absent. Pixel quantities (\<open>window.scrollY\<close>,
  bounding rectangles) are finite numbers, modelled as reals.
\<close>

record header_el =
  header_classes :: "jsstring list"
  header_height :: real

definition STICKY_OFFSET :: real where
  "STICKY_OFFSET = 48"

definition onScroll :: "real \<Rightarrow> header_el option \<Rightarrow> header_el option" where
  "onScroll scrollY header =
     (case header of
        None \<Rightarrow> None
      | Some h \<Rightarrow>
          if scrollY > STICKY_OFFSET
          then Some (h\<lparr>header_classes := classList_add (header_classes h) (str ''is-sticky'')\<rparr>)
          else Some (h\<lparr>header_classes := classList_remove (header_classes h) (str ''is-sticky'')\<rparr>))"

section \<open>Mobile menu\<close>

record toggle_el =
  aria_expanded :: "jsstring option"
  toggle_text :: jsstring

record nav_el =
  nav_classes :: "jsstring list"

text \<open>
  \<open>toggle_focused\<close> records that \<open>menuToggle.focus()\<close> has been called.
  The listeners are attached only when both elements exist (\<open>if (menuToggle && mainNav)\<close>).
\<close>

record menu_page =
  menuToggle :: "toggle_el option"
  mainNav :: "nav_el option"
  toggle_focused :: bool

definition glyph_bars :: jsstring where
  "glyph_bars = [0x2630]"

definition glyph_cross :: jsstring where
  "glyph_cross = [0x2715]"

definition String_of_bool :: "bool \<Rightarrow> jsstring" where
  "String_of_bool b = (if b then str ''true'' else str ''false'')"

definition toggle_click :: "menu_page \<Rightarrow> menu_page" where
  "toggle_click pg =
     (case (menuToggle pg, mainNav pg) of
        (Some t, Some n) \<Rightarrow>
          (let expanded = (aria_expanded t = Some (str ''true''));
               t1 = t\<lparr>aria_expanded := Some (String_of_bool (\<not> expanded))\<rparr>;
               n1 = n\<lparr>nav_classes := classList_toggle (nav_classes n) (str ''active'')\<rparr>;
               t2 = t1\<lparr>toggle_text :=
                       (if contains (nav_classes n1) (str ''active'')
                        then glyph_cross else glyph_bars)\<rparr>
           in pg\<lparr>menuToggle := Some t2, mainNav := Some n1\<rparr>)
      | _ \<Rightarrow> pg)"

definition close_menu :: "toggle_el \<Rightarrow> nav_el \<Rightarrow> menu_page \<Rightarrow> menu_page" where
  "close_menu t n pg =
     pg\<lparr>mainNav := Some (n\<lparr>nav_classes := classList_remove (nav_classes n) (str ''active'')\<rparr>),
        menuToggle := Some (t\<lparr>aria_expanded := Some (str ''false''), toggle_text := glyph_bars\<rparr>)\<rparr>"

definition nav_link_click :: "menu_page \<Rightarrow> menu_page" where
  "nav_link_click pg =
     (case (menuToggle pg, mainNav pg) of
        (Some t, Some n) \<Rightarrow>
          if contains (nav_classes n) (str ''active'') then close_menu t n pg else pg
      | _ \<Rightarrow> pg)"

definition keydown :: "jsstring \<Rightarrow> menu_page \<Rightarrow> menu_page" where
  "keydown key pg =
     (case (menuToggle pg, mainNav pg) of
        (Some t, Some n) \<Rightarrow>
          if key = str ''Escape'' \<and> contains (nav_classes n) (str ''active'')
          then (close_menu t n pg)\<lparr>toggle_focused := True\<rparr>
          else pg
      | _ \<Rightarrow> pg)"

datatype menu_event = ToggleClick | NavLinkClick | KeyDown jsstring

fun menu_step :: "menu_page \<Rightarrow> menu_event \<Rightarrow> menu_page" where
  "menu_step pg ToggleClick = toggle_click pg"
| "menu_step pg NavLinkClick = nav_link_click pg"
| "menu_step pg (KeyDown key) = keydown key pg"

definition menu_closed :: "menu_page \<Rightarrow> bool" where
  "menu_closed pg =
     (case (menuToggle pg, mainNav pg) of
        (Some t, Some n) \<Rightarrow>
          \<not> contains (nav_classes n) (str ''active'') \<and>
          aria_expanded t = Some (str ''false'') \<and> toggle_text t = glyph_bars
      | _ \<Rightarrow> False)"

definition menu_open :: "menu_page \<Rightarrow> bool" where
  "menu_open pg =
     (case (menuToggle pg, mainNav pg) of
        (Some t, Some n) \<Rightarrow>
          contains (nav_classes n) (str ''active'') \<and>
          aria_expanded t = Some (str ''true'') \<and> toggle_text t = glyph_cross
      | _ \<Rightarrow> False)"

definition menu_in_sync :: "menu_page \<Rightarrow> bool" where
  "menu_in_sync pg =
     (case (menuToggle pg, mainNav pg) of
        (Some t, Some n) \<Rightarrow>
          (contains (nav_classes n) (str ''active'') = (aria_expanded t = Some (str ''true''))) \<and>
          ((aria_expanded t = Some (str ''true'')) = (toggle_text t = glyph_cross))
      | _ \<Rightarrow> False)"

definition example_menu :: menu_page where
  "example_menu =
     \<lparr>menuToggle = Some \<lparr>aria_expanded = Some (str ''false''), toggle_text = glyph_bars\<rparr>,
      mainNav = Some \<lparr>nav_classes = [str ''main-nav'']\<rparr>,
      toggle_focused = False\<rparr>"

section \<open>Smooth scroll with header offset\<close>

text \<open>
  \<open>navLinks = qa('a[href^="#"]')\<close>: the anchors whose \<open>href\<close> attribute begins with \<open>#\<close>.
  \<open>no_smooth\<close> says that \<open>link.dataset.noSmooth\<close> is defined.
\<close>

record anchor_el =
  href :: "jsstring option"
  no_smooth :: bool

record target_el =
  rect_top :: real

record scroll_page =
  header :: "header_el option"
  scrollY :: real
  elementById :: "jsstring \<Rightarrow> target_el option"

definition in_navLinks :: "anchor_el \<Rightarrow> bool" where
  "in_navLinks a = (case href a of None \<Rightarrow> False | Some h \<Rightarrow> take 1 h = str ''#'')"

definition getHeaderOffset :: "header_el option \<Rightarrow> real" where
  "getHeaderOffset hdr = (case hdr of None \<Rightarrow> 0 | Some h \<Rightarrow> header_height h)"

text \<open>
  The outcome of a click on an anchor: \<open>Native\<close> when the default action is not prevented
  (no listener, or the listener returns before \<open>e.preventDefault()\<close>), \<open>ScrollTo top\<close> when
  the listener prevents it and calls \<open>window.scrollTo({top, behavior: 'smooth'})\<close>.
\<close>

datatype click_result = Native | ScrollTo real

definition has_click_listener :: "anchor_el \<Rightarrow> bool" where
  "has_click_listener a =
     (in_navLinks a \<and>
      \<not> (href a = None \<or> href a = Some [] \<or> href a = Some (str ''#'') \<or> no_smooth a))"

definition anchor_click :: "anchor_el \<Rightarrow> scroll_page \<Rightarrow> click_result" where
  "anchor_click a pg =
     (if \<not> has_click_listener a then Native
      else case href a of
        None \<Rightarrow> Native
      | Some h \<Rightarrow>
          (let targetId = drop 1 h in
           case elementById pg targetId of
             None \<Rightarrow> Native
           | Some targetEl \<Rightarrow>
               (let headerOffset = getHeaderOffset (header pg);
                    targetTop = rect_top targetEl + scrollY pg;
                    scrollTo = max 0 (targetTop - headerOffset - 18)
                in ScrollTo scrollTo)))"

definition example_anchor :: anchor_el where
  "example_anchor = \<lparr>href = Some (str ''#plans''), no_smooth = False\<rparr>"

definition example_scroll_page :: scroll_page where
  "example_scroll_page =
     \<lparr>header = Some \<lparr>header_classes = [str ''site-header''], header_height = 64\<rparr>,
      scrollY = 120,
      elementById = (\<lambda>i. if i = str ''plans'' then Some \<lparr>rect_top = 500\<rparr> else None)\<rparr>"

section \<open>Contact form\<close>

subsection \<open>Trimming and the email pattern\<close>

text \<open>
  The code units that \<open>String.prototype.trim\<close> strips and that \<open>\s\<close> matches: white space
  and line terminators.
\<close>

definition is_space :: "jschar \<Rightarrow> bool" where
  "is_space c =
     (c = 0x09 \<or> c = 0x0A \<or> c = 0x0B \<or> c = 0x0C \<or> c = 0x0D \<or> c = 0x20 \<or> c = 0xA0 \<or>
      c = 0x1680 \<or> (0x2000 \<le> c \<and> c \<le> 0x200A) \<or> c = 0x2028 \<or> c = 0x2029 \<or>
      c = 0x202F \<or> c = 0x205F \<or> c = 0x3000 \<or> c = 0xFEFF)"

definition trim :: "jsstring \<Rightarrow> jsstring" where
  "trim s = rev (dropWhile is_space (rev (dropWhile is_space s)))"

text \<open>
  The fragment of regular expressions that \<open>emailRe\<close> uses: a literal character, a
  character class repeated one or more times, and sequencing. \<open>rmatch r s\<close> lists, in the
  order a backtracking matcher tries them (the repetition is greedy), what is left of
  \<open>s\<close> after each way of matching \<open>r\<close> at its start.
\<close>

datatype regex = Chr jschar | PlusClass "jschar \<Rightarrow> bool" | Seq regex regex

fun plus_class :: "(jschar \<Rightarrow> bool) \<Rightarrow> jsstring \<Rightarrow> jsstring list" where
  "plus_class p [] = []"
| "plus_class p (c # cs) = (if p c then plus_class p cs @ [cs] else [])"

fun rmatch :: "regex \<Rightarrow> jsstring \<Rightarrow> jsstring list" where
  "rmatch (Chr a) s = (case s of [] \<Rightarrow> [] | c # cs \<Rightarrow> if c = a then [cs] else [])"
| "rmatch (PlusClass p) s = plus_class p s"
| "rmatch (Seq r1 r2) s = concat (map (rmatch r2) (rmatch r1 s))"

text \<open>\<open>/^r$/.test(s)\<close>: some way of matching \<open>r\<close> from the start of \<open>s\<close> leaves nothing.\<close>

definition anchored_test :: "regex \<Rightarrow> jsstring \<Rightarrow> bool" where
  "anchored_test r s = ([] \<in> set (rmatch r s))"

text \<open>The class \<open>[^\s@]\<close>.\<close>

definition not_space_at :: "jschar \<Rightarrow> bool" where
  "not_space_at c = (\<not> is_space c \<and> c \<noteq> 0x40)"

text \<open>\<open>emailRe = /^[^\s@]+@[^\s@]+\.[^\s@]+$/\<close>\<close>

definition emailRe :: regex where
  "emailRe =
     Seq (PlusClass not_space_at)
       (Seq (Chr 0x40)
         (Seq (PlusClass not_space_at)
           (Seq (Chr 0x2E) (PlusClass not_space_at))))"

text \<open>The email validator passes when \<open>!emailVal || !emailRe.test(emailVal)\<close> is false.\<close>

definition email_accepted :: "jsstring \<Rightarrow> bool" where
  "email_accepted emailVal = (\<not> (emailVal = [] \<or> \<not> anchored_test emailRe emailVal))"

text \<open>
  The specification's wording of the same condition: the value is non-empty and has the
  shape \<open>local@domain.tld\<close> (three parts, each with at least one character, joined by
  \<open>@\<close> and \<open>.\<close>), with exactly one \<open>@\<close>, at least one \<open>.\<close> after the \<open>@\<close>, and no white
  space anywhere.
\<close>

definition spec_email_shape :: "jsstring \<Rightarrow> bool" where
  "spec_email_shape s =
     (s \<noteq> [] \<and>
      (\<exists>local domain tld.
         local \<noteq> [] \<and> domain \<noteq> [] \<and> tld \<noteq> [] \<and> s = local @ [0x40] @ domain @ [0x2E] @ tld) \<and>
      count_list s 0x40 = 1 \<and>
      0x2E \<in> set (drop 1 (dropWhile (\<lambda>c. c \<noteq> 0x40) s)) \<and>
      list_all (\<lambda>c. \<not> is_space c) s)"

subsection \<open>The form and its elements\<close>

text \<open>
  A node created by the script (\<open>document.createElement('div')\<close>) with its class name,
  \<open>role\<close> attribute and text.
\<close>

record dom_node =
  node_class :: jsstring
  node_role :: jsstring
  node_text :: jsstring

text \<open>
  A text field: its current and default value (\<open>form.reset()\<close> restores the default), its
  class list, and the \<open>field-error\<close> nodes inserted right after it, nearest first.
\<close>

record field_el =
  field_value :: jsstring
  field_default :: jsstring
  field_classes :: "jsstring list"
  field_errors :: "dom_node list"

record button_el =
  btn_disabled :: bool
  btn_text :: jsstring

datatype field_id = NameField | EmailField | MessageField

text \<open>
  The two timer callbacks of the script. \<open>SendDone b\<close> is the simulated-send callback of a
  submission whose \<open>submitBtn\<close> lookup found a button (\<open>b\<close>) or not; \<open>RemoveAlert i\<close> removes
  the success banner with identity \<open>i\<close>.
\<close>

datatype callback = SendDone bool | RemoveAlert nat

text \<open>
  The contact form: the four elements the submit handler looks up (each may be absent),
  the \<open>.form-alert\<close> elements inside the form in document order, each with its identity,
  the field that last received \<open>focus()\<close>, the timers scheduled with \<open>setTimeout\<close> (delay in
  milliseconds and callback, in scheduling order), and the next fresh node identity.
\<close>

record form_state =
  nameEl :: "field_el option"
  emailEl :: "field_el option"
  messageEl :: "field_el option"
  submitBtn :: "button_el option"
  form_alerts :: "(nat \<times> dom_node) list"
  focused :: "field_id option"
  timers :: "(nat \<times> callback) list"
  next_id :: nat

text \<open>An entry of the \<open>errors\<close> array: the field element (or null) and the message.\<close>

record error_entry =
  err_field :: "field_id option"
  err_msg :: jsstring

definition createAlertMessage :: "jsstring \<Rightarrow> jsstring \<Rightarrow> dom_node" where
  "createAlertMessage message type =
     \<lparr>node_class = str ''form-alert form-alert--'' @ type,
      node_role = str ''alert'',
      node_text = message\<rparr>"

definition remove_input_error :: "field_el \<Rightarrow> field_el" where
  "remove_input_error f =
     f\<lparr>field_classes := classList_remove (field_classes f) (str ''input-error'')\<rparr>"

definition clearFormAlerts :: "form_state \<Rightarrow> form_state" where
  "clearFormAlerts st =
     st\<lparr>form_alerts := [],
        nameEl := map_option remove_input_error (nameEl st),
        emailEl := map_option remove_input_error (emailEl st),
        messageEl := map_option remove_input_error (messageEl st)\<rparr>"

definition trimmed_value :: "field_el option \<Rightarrow> jsstring" where
  "trimmed_value el = (case el of None \<Rightarrow> [] | Some f \<Rightarrow> trim (field_value f))"

definition name_msg :: jsstring where
  "name_msg = str ''Please enter your name (2+ characters).''"

definition email_msg :: jsstring where
  "email_msg = str ''Please enter a valid email address.''"

definition message_msg :: jsstring where
  "message_msg = str ''Please enter a message (10+ characters).''"

definition summary_msg :: jsstring where
  "summary_msg = str ''Please fix the errors in the form and try again.''"

definition success_msg :: jsstring where
  "success_msg = str ''Thanks! Your message has been sent. We will reply within 24 hours.''"

text \<open>The three validations, in the order of the handler; each pushes onto \<open>errors\<close>.\<close>

definition validate :: "form_state \<Rightarrow> error_entry list" where
  "validate st =
     (let nameVal = trimmed_value (nameEl st);
          errors1 = (if nameVal = [] \<or> length nameVal < 2
                     then [\<lparr>err_field = map_option (\<lambda>_. NameField) (nameEl st),
                            err_msg = name_msg\<rparr>]
                     else []);
          emailVal = trimmed_value (emailEl st);
          errors2 = (if emailVal = [] \<or> \<not> anchored_test emailRe emailVal
                     then errors1 @ [\<lparr>err_field = map_option (\<lambda>_. EmailField) (emailEl st),
                                      err_msg = email_msg\<rparr>]
                     else errors1);
          messageVal = trimmed_value (messageEl st);
          errors3 = (if messageVal = [] \<or> length messageVal < 10
                     then errors2 @ [\<lparr>err_field = map_option (\<lambda>_. MessageField) (messageEl st),
                                      err_msg = message_msg\<rparr>]
                     else errors2)
      in errors3)"

definition upd_field :: "field_id \<Rightarrow> (field_el \<Rightarrow> field_el) \<Rightarrow> form_state \<Rightarrow> form_state" where
  "upd_field k g st =
     (case k of
        NameField \<Rightarrow> st\<lparr>nameEl := map_option g (nameEl st)\<rparr>
      | EmailField \<Rightarrow> st\<lparr>emailEl := map_option g (emailEl st)\<rparr>
      | MessageField \<Rightarrow> st\<lparr>messageEl := map_option g (messageEl st)\<rparr>)"

definition field_error_node :: "jsstring \<Rightarrow> dom_node" where
  "field_error_node msg =
     \<lparr>node_class = str ''field-error'', node_role = str ''alert'', node_text = msg\<rparr>"

definition add_inline_error :: "jsstring \<Rightarrow> field_el \<Rightarrow> field_el" where
  "add_inline_error msg f =
     f\<lparr>field_classes := classList_add (field_classes f) (str ''input-error''),
       field_errors := field_error_node msg # field_errors f\<rparr>"

text \<open>The body of \<open>errors.forEach(({ field, msg }, i) => ...)\<close> and the loop itself.\<close>

definition show_error :: "nat \<Rightarrow> error_entry \<Rightarrow> form_state \<Rightarrow> form_state" where
  "show_error i e st =
     (case err_field e of
        None \<Rightarrow> st
      | Some k \<Rightarrow>
          (let st1 = upd_field k (add_inline_error (err_msg e)) st
           in if i = 0 then st1\<lparr>focused := Some k\<rparr> else st1))"

fun forEach_errors :: "nat \<Rightarrow> error_entry list \<Rightarrow> form_state \<Rightarrow> form_state" where
  "forEach_errors i [] st = st"
| "forEach_errors i (e # es) st = forEach_errors (Suc i) es (show_error i e st)"

definition insert_alert_first :: "dom_node \<Rightarrow> form_state \<Rightarrow> form_state" where
  "insert_alert_first nd st =
     st\<lparr>form_alerts := (next_id st, nd) # form_alerts st, next_id := Suc (next_id st)\<rparr>"

definition setTimeout :: "callback \<Rightarrow> nat \<Rightarrow> form_state \<Rightarrow> form_state" where
  "setTimeout cb delay st = st\<lparr>timers := timers st @ [(delay, cb)]\<rparr>"

text \<open>
  The submit listener. Its first statement, \<open>e.preventDefault()\<close>, changes nothing of the
  form's state. \<open>originalText\<close> is read from the button and not used afterwards.
\<close>

definition submit :: "form_state \<Rightarrow> form_state" where
  "submit st0 =
     (let st = clearFormAlerts st0;
          errors = validate st
      in if errors \<noteq> []
         then insert_alert_first (createAlertMessage summary_msg (str ''error''))
                (forEach_errors 0 errors st)
         else
           (let st1 = (case submitBtn st of
                         None \<Rightarrow> st
                       | Some b \<Rightarrow>
                           (let originalText = btn_text b
                            in st\<lparr>submitBtn :=
                                   Some (b\<lparr>btn_disabled := True,
                                           btn_text := str ''Sending...''\<rparr>)\<rparr>))
            in setTimeout (SendDone (submitBtn st \<noteq> None)) 900 st1))"

definition reset_field :: "field_el \<Rightarrow> field_el" where
  "reset_field f = f\<lparr>field_value := field_default f\<rparr>"

definition form_reset :: "form_state \<Rightarrow> form_state" where
  "form_reset st =
     st\<lparr>nameEl := map_option reset_field (nameEl st),
        emailEl := map_option reset_field (emailEl st),
        messageEl := map_option reset_field (messageEl st)\<rparr>"

text \<open>Running a timer callback on the form as it is when the timer fires.\<close>

fun run_callback :: "callback \<Rightarrow> form_state \<Rightarrow> form_state" where
  "run_callback (SendDone has_btn) st =
     (let success_id = next_id st;
          st1 = insert_alert_first (createAlertMessage success_msg (str ''success'')) st;
          st2 = form_reset st1;
          st3 = (if has_btn
                 then st2\<lparr>submitBtn :=
                          map_option (\<lambda>b. b\<lparr>btn_disabled := False,
                                            btn_text := str ''Send Inquiry''\<rparr>) (submitBtn st2)\<rparr>
                 else st2)
      in setTimeout (RemoveAlert success_id) 8000 st3)"
| "run_callback (RemoveAlert i) st =
     st\<lparr>form_alerts := filter (\<lambda>(j, nd). j \<noteq> i) (form_alerts st)\<rparr>"

subsection \<open>The validators and the first failing field\<close>

definition name_invalid :: "form_state \<Rightarrow> bool" where
  "name_invalid st = (length (trimmed_value (nameEl st)) < 2)"

definition email_invalid :: "form_state \<Rightarrow> bool" where
  "email_invalid st = (\<not> email_accepted (trimmed_value (emailEl st)))"

definition message_invalid :: "form_state \<Rightarrow> bool" where
  "message_invalid st = (length (trimmed_value (messageEl st)) < 10)"

definition get_field :: "field_id \<Rightarrow> form_state \<Rightarrow> field_el option" where
  "get_field k st =
     (case k of NameField \<Rightarrow> nameEl st | EmailField \<Rightarrow> emailEl st | MessageField \<Rightarrow> messageEl st)"

text \<open>The first field, in the order name, email, message, whose validator fails.\<close>

definition first_failing :: "form_state \<Rightarrow> field_id option" where
  "first_failing st =
     (if name_invalid st then Some NameField
      else if email_invalid st then Some EmailField
      else if message_invalid st then Some MessageField
      else None)"

text \<open>
  What a field looks like after a submission with errors: the handler first removes the
  class \<open>input-error\<close> and then, for a failing field, adds the class again and inserts a
  new \<open>field-error\<close> node with the field's message right after the field.
\<close>

definition after_invalid_submit :: "bool \<Rightarrow> jsstring \<Rightarrow> field_el \<Rightarrow> field_el" where
  "after_invalid_submit failing msg f =
     (if failing then add_inline_error msg (remove_input_error f) else remove_input_error f)"

definition summary_banner :: dom_node where
  "summary_banner = createAlertMessage summary_msg (str ''error'')"

definition success_banner :: dom_node where
  "success_banner = createAlertMessage success_msg (str ''success'')"

definition sending_button :: "button_el \<Rightarrow> button_el" where
  "sending_button b = b\<lparr>btn_disabled := True, btn_text := str ''Sending...''\<rparr>"

definition ready_button :: "button_el \<Rightarrow> button_el" where
  "ready_button b = b\<lparr>btn_disabled := False, btn_text := str ''Send Inquiry''\<rparr>"

text \<open>The entry each validator pushes when it fails.\<close>

definition name_entry :: "form_state \<Rightarrow> error_entry" where
  "name_entry st = \<lparr>err_field = map_option (\<lambda>_. NameField) (nameEl st), err_msg = name_msg\<rparr>"

definition email_entry :: "form_state \<Rightarrow> error_entry" where
  "email_entry st = \<lparr>err_field = map_option (\<lambda>_. EmailField) (emailEl st), err_msg = email_msg\<rparr>"

definition message_entry :: "form_state \<Rightarrow> error_entry" where
  "message_entry st =
     \<lparr>err_field = map_option (\<lambda>_. MessageField) (messageEl st), err_msg = message_msg\<rparr>"

text \<open>The effect of a list of entries on the field \<open>k\<close>: each entry for \<open>k\<close> marks it.\<close>

fun marks :: "field_id \<Rightarrow> error_entry list \<Rightarrow> field_el \<Rightarrow> field_el" where
  "marks k [] f = f"
| "marks k (e # es) f =
     marks k es (if err_field e = Some k then add_inline_error (err_msg e) f else f)"

subsection \<open>Example forms\<close>

definition text_field :: "string \<Rightarrow> field_el" where
  "text_field v =
     \<lparr>field_value = str v, field_default = [], field_classes = [], field_errors = []\<rparr>"

definition form_with ::
  "field_el option \<Rightarrow> field_el option \<Rightarrow> field_el option \<Rightarrow> button_el option \<Rightarrow> form_state" where
  "form_with n e m b =
     \<lparr>nameEl = n, emailEl = e, messageEl = m, submitBtn = b,
      form_alerts = [], focused = None, timers = [], next_id = 0\<rparr>"

definition all_bad_form :: form_state where
  "all_bad_form =
     form_with (Some (text_field ''A'')) (Some (text_field ''bad''))
       (Some (text_field ''short''))
       (Some \<lparr>btn_disabled = False, btn_text = str ''Send''\<rparr>)"

definition prefilled_form :: form_state where
  "prefilled_form =
     \<lparr>nameEl = Some \<lparr>field_value = str ''Jane Doe'', field_default = str ''Your name'',
                      field_classes = [str ''wide''], field_errors = []\<rparr>,
      emailEl = Some \<lparr>field_value = str ''jane@example.com'', field_default = str ''you@mail.io'',
                       field_classes = [], field_errors = []\<rparr>,
      messageEl = Some \<lparr>field_value = str ''Hello, this is a real inquiry.'',
                         field_default = str ''Hi'', field_classes = [], field_errors = []\<rparr>,
      submitBtn = Some \<lparr>btn_disabled = False, btn_text = str ''Send''\<rparr>,
      form_alerts = [], focused = None, timers = [], next_id = 0\<rparr>"

definition labelled_form :: form_state where
  "labelled_form =
     form_with (Some (text_field '' Al '')) (Some (text_field ''al@site.org''))
       (Some (text_field ''Please call me back.''))
       (Some \<lparr>btn_disabled = False, btn_text = str ''Contact us''\<rparr>)"

definition no_name_form :: form_state where
  "no_name_form =
     form_with None (Some (text_field ''jane@example.com''))
       (Some (text_field ''too short'')) None"

definition no_name_bad_email_form :: form_state where
  "no_name_bad_email_form =
     form_with None (Some (text_field ''jane@example''))
       (Some (text_field ''Hello, this is a real inquiry.'')) None"

section \<open>Facts about strings and class lists\<close>

lemma str_true_false [simp]: "str ''true'' \<noteq> str ''false''" "str ''false'' \<noteq> str ''true''"
  by (simp_all add: str_def)

lemma glyphs_differ [simp]: "glyph_cross \<noteq> glyph_bars" "glyph_bars \<noteq> glyph_cross"
  by (simp_all add: glyph_bars_def glyph_cross_def)

lemma contains_add [simp]: "contains (classList_add cl tok) tok"
  by (simp add: classList_add_def contains_def)

lemma contains_remove [simp]: "\<not> contains (classList_remove cl tok) tok"
  by (simp add: classList_remove_def contains_def)

lemma remove_absent: "\<not> contains cl tok \<Longrightarrow> classList_remove cl tok = cl"
  by (induction cl) (auto simp: classList_remove_def contains_def)

lemma remove_add_absent:
  "\<not> contains cl tok \<Longrightarrow> classList_remove (classList_add cl tok) tok = cl"
  using remove_absent [of cl tok] by (simp add: classList_add_def classList_remove_def)

section \<open>Sticky header: results\<close>

text \<open>
  C8. For every scroll position \<open>y\<close>, after \<open>onScroll\<close> has run (it is the scroll listener
  and is also called once at load) an existing header carries the class \<open>is-sticky\<close>
  exactly when \<open>y > 48\<close>.
\<close>

theorem onScroll_sticky_iff:
  "\<exists>h'. onScroll y (Some h) = Some h' \<and>
         (contains (header_classes h') (str ''is-sticky'') = (y > 48))"
  by (simp add: onScroll_def STICKY_OFFSET_def)

theorem onScroll_sticky_iff_witness:
  "(\<exists>h'. onScroll 49 (Some \<lparr>header_classes = [str ''site-header''], header_height = 64\<rparr>)
           = Some h' \<and> contains (header_classes h') (str ''is-sticky'')) \<and>
   (\<exists>h'. onScroll 48 (Some \<lparr>header_classes = [str ''site-header'', str ''is-sticky''],
                             header_height = 64\<rparr>)
           = Some h' \<and> \<not> contains (header_classes h') (str ''is-sticky''))"
  using onScroll_sticky_iff [of 49 "\<lparr>header_classes = [str ''site-header''], header_height = 64\<rparr>"]
    onScroll_sticky_iff [of 48 "\<lparr>header_classes = [str ''site-header'', str ''is-sticky''],
                               header_height = 64\<rparr>"]
  by simp

section \<open>Mobile menu: results\<close>

lemma toggle_click_closed: "menu_closed pg \<Longrightarrow> menu_open (toggle_click pg)"
  by (auto simp: menu_closed_def menu_open_def toggle_click_def classList_toggle_def
      String_of_bool_def Let_def split: option.splits)

lemma toggle_click_open: "menu_open pg \<Longrightarrow> menu_closed (toggle_click pg)"
  by (auto simp: menu_closed_def menu_open_def toggle_click_def classList_toggle_def
      String_of_bool_def Let_def split: option.splits)

lemma nav_link_click_inv:
  "menu_closed pg \<or> menu_open pg \<Longrightarrow> menu_closed (nav_link_click pg)"
  by (auto simp: menu_closed_def menu_open_def nav_link_click_def close_menu_def
      split: option.splits)

lemma keydown_inv:
  "menu_closed pg \<or> menu_open pg \<Longrightarrow> menu_closed (keydown key pg) \<or> menu_open (keydown key pg)"
  by (auto simp: menu_closed_def menu_open_def keydown_def close_menu_def
      split: option.splits)

lemma menu_step_inv:
  "menu_closed pg \<or> menu_open pg \<Longrightarrow> menu_closed (menu_step pg ev) \<or> menu_open (menu_step pg ev)"
proof (cases ev)
  case ToggleClick
  assume "menu_closed pg \<or> menu_open pg"
  with ToggleClick show ?thesis
    using toggle_click_closed [of pg] toggle_click_open [of pg] by auto
next
  case NavLinkClick
  assume "menu_closed pg \<or> menu_open pg"
  with NavLinkClick show ?thesis
    using nav_link_click_inv [of pg] by simp
next
  case (KeyDown key)
  assume "menu_closed pg \<or> menu_open pg"
  with KeyDown show ?thesis
    using keydown_inv [of pg key] by simp
qed

lemma menu_run_inv:
  "menu_closed pg \<or> menu_open pg \<Longrightarrow>
   menu_closed (foldl menu_step pg evs) \<or> menu_open (foldl menu_step pg evs)"
proof (induction evs arbitrary: pg)
  case Nil
  then show ?case by simp
next
  case (Cons ev evs)
  from Cons.prems have "menu_closed (menu_step pg ev) \<or> menu_open (menu_step pg ev)"
    by (rule menu_step_inv)
  then show ?case using Cons.IH by simp
qed

lemma closed_or_open_in_sync: "menu_closed pg \<or> menu_open pg \<Longrightarrow> menu_in_sync pg"
  by (auto simp: menu_closed_def menu_open_def menu_in_sync_def split: option.splits)

text \<open>
  C6. Starting from the closed menu (no \<open>active\<close> class, \<open>aria-expanded="false"\<close>, the bars
  glyph), after any sequence of toggle clicks, nav-link clicks and key presses the nav
  container has the class \<open>active\<close> iff the toggle's \<open>aria-expanded\<close> is \<open>"true"\<close> iff the
  toggle shows the cross glyph.
\<close>

theorem menu_stays_in_sync:
  "menu_closed pg \<Longrightarrow> menu_in_sync (foldl menu_step pg evs)"
  using menu_run_inv [of pg evs] closed_or_open_in_sync by blast

theorem menu_stays_in_sync_witness:
  "menu_closed example_menu \<and>
   menu_in_sync (foldl menu_step example_menu
     [ToggleClick, NavLinkClick, ToggleClick, KeyDown (str ''Escape''), ToggleClick])"
proof -
  have c: "menu_closed example_menu"
    by (simp add: menu_closed_def example_menu_def contains_def str_def)
  show ?thesis
    using c menu_stays_in_sync [OF c,
      of "[ToggleClick, NavLinkClick, ToggleClick, KeyDown (str ''Escape''), ToggleClick]"]
    by blast
qed

text \<open>
  C7. Two consecutive clicks on the toggle button, starting from the closed menu, give
  back the very same page state: class list, \<open>aria-expanded\<close> attribute and glyph.
\<close>

theorem toggle_twice_closed:
  "menu_closed pg \<Longrightarrow> toggle_click (toggle_click pg) = pg"
  by (auto simp: menu_closed_def toggle_click_def classList_toggle_def
      String_of_bool_def Let_def remove_add_absent split: option.splits)

theorem toggle_twice_closed_witness:
  "menu_closed example_menu \<and> toggle_click (toggle_click example_menu) = example_menu"
proof -
  have c: "menu_closed example_menu"
    by (simp add: menu_closed_def example_menu_def contains_def str_def)
  show ?thesis using c toggle_twice_closed [OF c] by simp
qed

section \<open>Smooth scroll: results\<close>

text \<open>
  C5. A click on an in-page anchor (\<open>href\<close> beginning with \<open>#\<close>, not the bare \<open>#\<close>, not opted
  out through \<open>data-no-smooth\<close>): when the element with the target id exists, the page is
  scrolled to \<open>max(0, target's document-relative top - header height - 18)\<close>, the header
  height being 0 without a header; when it does not exist, the click is left to the
  browser.
\<close>

theorem anchor_click_offset:
  assumes "href a = Some h" and "take 1 h = str ''#''" and "h \<noteq> str ''#''" and "\<not> no_smooth a"
  shows "(case elementById pg (drop 1 h) of
            Some targetEl \<Rightarrow>
              anchor_click a pg =
                ScrollTo (max 0 (rect_top targetEl + scrollY pg
                                 - (case header pg of None \<Rightarrow> 0 | Some hdr \<Rightarrow> header_height hdr) - 18))
          | None \<Rightarrow> anchor_click a pg = Native)"
proof -
  from assms(2) have "h \<noteq> []" by (auto simp: str_def)
  with assms have "has_click_listener a"
    by (simp add: has_click_listener_def in_navLinks_def)
  with assms(1) show ?thesis
    by (simp add: anchor_click_def getHeaderOffset_def Let_def split: option.splits)
qed

theorem anchor_click_offset_witness:
  "href example_anchor = Some (str ''#plans'') \<and> take 1 (str ''#plans'') = str ''#'' \<and>
   str ''#plans'' \<noteq> str ''#'' \<and> \<not> no_smooth example_anchor \<and>
   anchor_click example_anchor example_scroll_page = ScrollTo 538"
  using anchor_click_offset [of example_anchor "str ''#plans''" example_scroll_page]
  by (simp add: example_anchor_def example_scroll_page_def str_def)

section \<open>The email pattern: results\<close>

lemma plus_class_iff:
  "r \<in> set (plus_class p s) \<longleftrightarrow> (\<exists>pre. pre \<noteq> [] \<and> list_all p pre \<and> s = pre @ r)"
proof (induction s)
  case Nil
  then show ?case by simp
next
  case (Cons c cs)
  show ?case
  proof (cases "p c")
    case False
    have "\<not> (\<exists>pre. pre \<noteq> [] \<and> list_all p pre \<and> c # cs = pre @ r)"
    proof
      assume "\<exists>pre. pre \<noteq> [] \<and> list_all p pre \<and> c # cs = pre @ r"
      then obtain pre where pre: "pre \<noteq> []" "list_all p pre" "c # cs = pre @ r" by blast
      then obtain x xs where "pre = x # xs" by (cases pre) auto
      with pre have "p c" by simp
      with False show False by simp
    qed
    with False show ?thesis by simp
  next
    case True
    have "(\<exists>pre. pre \<noteq> [] \<and> list_all p pre \<and> c # cs = pre @ r) \<longleftrightarrow>
          (r = cs \<or> (\<exists>pre. pre \<noteq> [] \<and> list_all p pre \<and> cs = pre @ r))" (is "?L \<longleftrightarrow> ?R")
    proof
      assume ?L
      then obtain pre where pre: "pre \<noteq> []" "list_all p pre" "c # cs = pre @ r" by blast
      then obtain x xs where xs: "pre = x # xs" by (cases pre) auto
      with pre have "cs = xs @ r" "list_all p xs" by simp_all
      then show ?R by (cases xs) auto
    next
      assume ?R
      then show ?L
      proof
        assume "r = cs"
        with True have "[c] \<noteq> [] \<and> list_all p [c] \<and> c # cs = [c] @ r" by simp
        then show ?L by blast
      next
        assume "\<exists>pre. pre \<noteq> [] \<and> list_all p pre \<and> cs = pre @ r"
        then obtain pre where "pre \<noteq> []" "list_all p pre" "cs = pre @ r" by blast
        with True have "c # pre \<noteq> [] \<and> list_all p (c # pre) \<and> c # cs = (c # pre) @ r" by simp
        then show ?L by blast
      qed
    qed
    with True Cons.IH show ?thesis by auto
  qed
qed

lemma rmatch_Chr_iff: "r \<in> set (rmatch (Chr a) s) \<longleftrightarrow> s = a # r"
  by (cases s) auto

lemma rmatch_Seq_iff:
  "r \<in> set (rmatch (Seq r1 r2) s) \<longleftrightarrow> (\<exists>m. m \<in> set (rmatch r1 s) \<and> r \<in> set (rmatch r2 m))"
  by auto

lemma emailRe_test_iff:
  "anchored_test emailRe s \<longleftrightarrow>
     (\<exists>l d t. l \<noteq> [] \<and> d \<noteq> [] \<and> t \<noteq> [] \<and>
        list_all not_space_at l \<and> list_all not_space_at d \<and> list_all not_space_at t \<and>
        s = l @ [0x40] @ d @ [0x2E] @ t)" (is "?L \<longleftrightarrow> ?R")
proof
  assume ?L
  then obtain m1 m2 m3 m4 where
    m: "m1 \<in> set (plus_class not_space_at s)" "m2 \<in> set (rmatch (Chr 0x40) m1)"
       "m3 \<in> set (plus_class not_space_at m2)" "m4 \<in> set (rmatch (Chr 0x2E) m3)"
       "[] \<in> set (plus_class not_space_at m4)"
    unfolding anchored_test_def emailRe_def rmatch_Seq_iff rmatch.simps(2) by blast
  from m(1) obtain l where l: "l \<noteq> []" "list_all not_space_at l" "s = l @ m1"
    unfolding plus_class_iff by blast
  from m(2) have m1: "m1 = 0x40 # m2" unfolding rmatch_Chr_iff .
  from m(3) obtain d where d: "d \<noteq> []" "list_all not_space_at d" "m2 = d @ m3"
    unfolding plus_class_iff by blast
  from m(4) have m3: "m3 = 0x2E # m4" unfolding rmatch_Chr_iff .
  from m(5) obtain t where t: "t \<noteq> []" "list_all not_space_at t" "m4 = t @ []"
    unfolding plus_class_iff by blast
  have "s = l @ [0x40] @ d @ [0x2E] @ t" using l(3) m1 d(3) m3 t(3) by simp
  with l d t show ?R by blast
next
  assume ?R
  then obtain l d t where p: "l \<noteq> []" "d \<noteq> []" "t \<noteq> []"
      "list_all not_space_at l" "list_all not_space_at d" "list_all not_space_at t"
      "s = l @ [0x40] @ d @ [0x2E] @ t" by blast
  have 5: "[] \<in> set (plus_class not_space_at t)"
    unfolding plus_class_iff using p(3,6) by simp
  have 4: "t \<in> set (rmatch (Chr 0x2E) (0x2E # t))" unfolding rmatch_Chr_iff by simp
  have 3: "0x2E # t \<in> set (plus_class not_space_at (d @ 0x2E # t))"
    unfolding plus_class_iff using p(2,5) by blast
  have 2: "d @ 0x2E # t \<in> set (rmatch (Chr 0x40) (0x40 # d @ 0x2E # t))"
    unfolding rmatch_Chr_iff by simp
  have 1: "0x40 # d @ 0x2E # t \<in> set (plus_class not_space_at s)"
    unfolding plus_class_iff using p(1,4,7) by auto
  show ?L
    unfolding anchored_test_def emailRe_def rmatch_Seq_iff rmatch.simps(2)
    using 1 2 3 4 5 by blast
qed

lemma not_space_at_iff: "list_all not_space_at xs \<longleftrightarrow> list_all (\<lambda>c. \<not> is_space c) xs \<and> count_list xs 0x40 = 0"
  by (induction xs) (auto simp: not_space_at_def)

lemma at_dot_not_space: "\<not> is_space 0x40" "\<not> is_space 0x2E"
  by (simp_all add: is_space_def)

lemma dropWhile_no_at:
  "count_list l (0x40::jschar) = 0 \<Longrightarrow> dropWhile (\<lambda>c. c \<noteq> 0x40) (l @ 0x40 # r) = 0x40 # r"
  by (induction l) (auto split: if_splits)

text \<open>
  C3. The email validator accepts a trimmed value exactly when it is non-empty and has the
  shape \<open>local@domain.tld\<close>: three non-empty parts, exactly one \<open>@\<close>, at least one \<open>.\<close>
  after the \<open>@\<close>, and no white space anywhere.
\<close>

theorem email_accepted_iff_spec_shape:
  "email_accepted s \<longleftrightarrow> spec_email_shape s"
proof
  assume "email_accepted s"
  then have ne: "s \<noteq> []" and "anchored_test emailRe s" by (simp_all add: email_accepted_def)
  then obtain l d t where p: "l \<noteq> []" "d \<noteq> []" "t \<noteq> []"
      "list_all not_space_at l" "list_all not_space_at d" "list_all not_space_at t"
      "s = l @ [0x40] @ d @ [0x2E] @ t" unfolding emailRe_test_iff by blast
  from p(4,5,6) have ns: "list_all (\<lambda>c. \<not> is_space c) l" "list_all (\<lambda>c. \<not> is_space c) d"
      "list_all (\<lambda>c. \<not> is_space c) t"
    and na: "count_list l 0x40 = 0" "count_list d 0x40 = 0" "count_list t 0x40 = 0"
    by (simp_all add: not_space_at_iff)
  have c1: "count_list s 0x40 = 1" using p(7) na by simp
  have "dropWhile (\<lambda>c. c \<noteq> 0x40) s = 0x40 # d @ [0x2E] @ t"
    using dropWhile_no_at [OF na(1), of "d @ [0x2E] @ t"] p(7) by simp
  then have dot: "0x2E \<in> set (drop 1 (dropWhile (\<lambda>c. c \<noteq> 0x40) s))" by simp
  have nsp: "list_all (\<lambda>c. \<not> is_space c) s" using p(7) ns at_dot_not_space by simp
  show "spec_email_shape s"
    unfolding spec_email_shape_def using ne p(1,2,3,7) c1 dot nsp by blast
next
  assume "spec_email_shape s"
  then obtain l d t where ne: "s \<noteq> []" and p: "l \<noteq> []" "d \<noteq> []" "t \<noteq> []"
      "s = l @ [0x40] @ d @ [0x2E] @ t"
    and c1: "count_list s 0x40 = 1" and nsp: "list_all (\<lambda>c. \<not> is_space c) s"
    unfolding spec_email_shape_def by blast
  from c1 p(4) have na: "count_list l 0x40 = 0" "count_list d 0x40 = 0" "count_list t 0x40 = 0"
    by simp_all
  from nsp p(4) have ns: "list_all (\<lambda>c. \<not> is_space c) l" "list_all (\<lambda>c. \<not> is_space c) d"
      "list_all (\<lambda>c. \<not> is_space c) t" by simp_all
  have "list_all not_space_at l" "list_all not_space_at d" "list_all not_space_at t"
    using na ns by (simp_all add: not_space_at_iff)
  with p have "anchored_test emailRe s" unfolding emailRe_test_iff by blast
  with ne show "email_accepted s" by (simp add: email_accepted_def)
qed

theorem email_accepted_iff_spec_shape_witness:
  "email_accepted (str ''jane@example.com'') \<and> spec_email_shape (str ''jane@example.com'') \<and>
   \<not> email_accepted (str ''bad'') \<and> \<not> spec_email_shape (str ''bad'') \<and>
   \<not> email_accepted (str ''a@b@c.d'') \<and> \<not> spec_email_shape (str ''a@b@c.d'') \<and>
   \<not> email_accepted (str ''a@.b'') \<and> \<not> spec_email_shape (str ''a@.b'')"
proof -
  have "email_accepted (str ''jane@example.com'')" "\<not> email_accepted (str ''bad'')"
    "\<not> email_accepted (str ''a@b@c.d'')" "\<not> email_accepted (str ''a@.b'')"
    by (simp_all add: email_accepted_def anchored_test_def emailRe_def not_space_at_def
        is_space_def str_def)
  then show ?thesis
    using email_accepted_iff_spec_shape [of "str ''jane@example.com''"]
      email_accepted_iff_spec_shape [of "str ''bad''"]
      email_accepted_iff_spec_shape [of "str ''a@b@c.d''"]
      email_accepted_iff_spec_shape [of "str ''a@.b''"]
    by blast
qed

section \<open>Contact form: the submit handler\<close>

lemma trimmed_value_clear [simp]:
  "trimmed_value (map_option remove_input_error el) = trimmed_value el"
  by (cases el) (simp_all add: trimmed_value_def remove_input_error_def)

lemma validate_clearFormAlerts [simp]: "validate (clearFormAlerts st) = validate st"
  by (simp add: validate_def clearFormAlerts_def option.map_comp comp_def Let_def)

lemma validate_in_order:
  "validate st =
     (if name_invalid st then [name_entry st] else []) @
     (if email_invalid st then [email_entry st] else []) @
     (if message_invalid st then [message_entry st] else [])"
  by (auto simp: validate_def name_invalid_def email_invalid_def message_invalid_def
      email_accepted_def Let_def name_entry_def email_entry_def message_entry_def)

lemma validate_Nil_iff:
  "validate st = [] \<longleftrightarrow> \<not> name_invalid st \<and> \<not> email_invalid st \<and> \<not> message_invalid st"
  by (simp add: validate_in_order)

lemma first_failing_None_iff: "first_failing st = None \<longleftrightarrow> validate st = []"
  by (simp add: first_failing_def validate_Nil_iff)

text \<open>What the loop leaves alone.\<close>

lemma show_error_frame:
  "form_alerts (show_error i e st) = form_alerts st"
  "timers (show_error i e st) = timers st"
  "submitBtn (show_error i e st) = submitBtn st"
  "next_id (show_error i e st) = next_id st"
  by (auto simp: show_error_def upd_field_def Let_def split: option.splits field_id.splits)

lemma forEach_errors_frame:
  "form_alerts (forEach_errors i es st) = form_alerts st \<and>
   timers (forEach_errors i es st) = timers st \<and>
   submitBtn (forEach_errors i es st) = submitBtn st \<and>
   next_id (forEach_errors i es st) = next_id st"
  by (induction es arbitrary: i st) (simp_all add: show_error_frame)

lemma show_error_focus_later: "0 < i \<Longrightarrow> focused (show_error i e st) = focused st"
  by (auto simp: show_error_def upd_field_def Let_def split: option.splits field_id.splits)

lemma forEach_errors_focus_later: "0 < i \<Longrightarrow> focused (forEach_errors i es st) = focused st"
  by (induction es arbitrary: i st) (simp_all add: show_error_focus_later)

lemma forEach_errors_focus:
  "focused (forEach_errors 0 es st) =
     (case es of [] \<Rightarrow> focused st
      | e # _ \<Rightarrow> (case err_field e of None \<Rightarrow> focused st | Some k \<Rightarrow> Some k))"
  by (cases es)
     (auto simp: forEach_errors_focus_later show_error_def upd_field_def Let_def
       split: option.splits field_id.splits)

text \<open>The fields after the loop: each entry with a field marks that field.\<close>

lemma get_field_show_error:
  "get_field k (show_error i e st) =
     map_option (\<lambda>f. if err_field e = Some k then add_inline_error (err_msg e) f else f)
       (get_field k st)"
  by (cases k; cases "err_field e"; cases "get_field k st")
     (auto simp: show_error_def upd_field_def get_field_def Let_def option.map_ident
       split: field_id.splits)

lemma get_field_forEach_errors:
  "get_field k (forEach_errors i es st) = map_option (marks k es) (get_field k st)"
proof (induction es arbitrary: i st)
  case Nil
  then show ?case by (simp add: option.map_ident)
next
  case (Cons e es)
  show ?case
    by (simp add: Cons.IH get_field_show_error option.map_comp comp_def)
qed


lemma submit_invalid_eq:
  "validate st \<noteq> [] \<Longrightarrow>
   submit st = insert_alert_first summary_banner
                 (forEach_errors 0 (validate st) (clearFormAlerts st))"
  by (simp add: submit_def summary_banner_def Let_def)

lemma get_field_insert_alert_first [simp]:
  "get_field k (insert_alert_first nd st) = get_field k st"
  by (simp add: get_field_def insert_alert_first_def split: field_id.splits)

lemma get_field_clearFormAlerts:
  "get_field k (clearFormAlerts st) = map_option remove_input_error (get_field k st)"
  by (simp add: get_field_def clearFormAlerts_def split: field_id.splits)

lemma get_field_submit_invalid:
  "validate st \<noteq> [] \<Longrightarrow>
   get_field k (submit st) =
     map_option (\<lambda>f. marks k (validate st) (remove_input_error f)) (get_field k st)"
  by (simp add: submit_invalid_eq get_field_forEach_errors get_field_clearFormAlerts
      option.map_comp comp_def)

lemma marks_name:
  "nameEl st \<noteq> None \<Longrightarrow>
   marks NameField (validate st) f = (if name_invalid st then add_inline_error name_msg f else f)"
  by (cases "emailEl st"; cases "messageEl st")
     (auto simp: validate_in_order name_entry_def email_entry_def message_entry_def)

lemma marks_email:
  "emailEl st \<noteq> None \<Longrightarrow>
   marks EmailField (validate st) f = (if email_invalid st then add_inline_error email_msg f else f)"
  by (cases "nameEl st"; cases "messageEl st")
     (auto simp: validate_in_order name_entry_def email_entry_def message_entry_def)

lemma marks_message:
  "messageEl st \<noteq> None \<Longrightarrow>
   marks MessageField (validate st) f =
     (if message_invalid st then add_inline_error message_msg f else f)"
  by (cases "nameEl st"; cases "emailEl st")
     (auto simp: validate_in_order name_entry_def email_entry_def message_entry_def)

lemma nameEl_submit_invalid:
  assumes "validate st \<noteq> []"
  shows "nameEl (submit st) =
           map_option (after_invalid_submit (name_invalid st) name_msg) (nameEl st)"
proof (cases "nameEl st")
  case None
  with get_field_submit_invalid [OF assms, of NameField] show ?thesis
    by (simp add: get_field_def)
next
  case (Some f)
  then have "nameEl st \<noteq> None" by simp
  from marks_name [OF this] get_field_submit_invalid [OF assms, of NameField] Some
  show ?thesis by (simp add: get_field_def after_invalid_submit_def)
qed

lemma emailEl_submit_invalid:
  assumes "validate st \<noteq> []"
  shows "emailEl (submit st) =
           map_option (after_invalid_submit (email_invalid st) email_msg) (emailEl st)"
proof (cases "emailEl st")
  case None
  with get_field_submit_invalid [OF assms, of EmailField] show ?thesis
    by (simp add: get_field_def)
next
  case (Some f)
  then have "emailEl st \<noteq> None" by simp
  from marks_email [OF this] get_field_submit_invalid [OF assms, of EmailField] Some
  show ?thesis by (simp add: get_field_def after_invalid_submit_def)
qed

lemma messageEl_submit_invalid:
  assumes "validate st \<noteq> []"
  shows "messageEl (submit st) =
           map_option (after_invalid_submit (message_invalid st) message_msg) (messageEl st)"
proof (cases "messageEl st")
  case None
  with get_field_submit_invalid [OF assms, of MessageField] show ?thesis
    by (simp add: get_field_def)
next
  case (Some f)
  then have "messageEl st \<noteq> None" by simp
  from marks_message [OF this] get_field_submit_invalid [OF assms, of MessageField] Some
  show ?thesis by (simp add: get_field_def after_invalid_submit_def)
qed

lemma clearFormAlerts_frame:
  "form_alerts (clearFormAlerts st) = []"
  "timers (clearFormAlerts st) = timers st"
  "submitBtn (clearFormAlerts st) = submitBtn st"
  "next_id (clearFormAlerts st) = next_id st"
  "focused (clearFormAlerts st) = focused st"
  by (simp_all add: clearFormAlerts_def)

lemma submit_invalid_banner:
  "validate st \<noteq> [] \<Longrightarrow> form_alerts (submit st) = [(next_id st, summary_banner)]"
  by (simp add: submit_invalid_eq insert_alert_first_def forEach_errors_frame
      clearFormAlerts_frame)

lemma submit_invalid_frame:
  "validate st \<noteq> [] \<Longrightarrow> timers (submit st) = timers st \<and> submitBtn (submit st) = submitBtn st"
  by (simp add: submit_invalid_eq insert_alert_first_def forEach_errors_frame
      clearFormAlerts_frame)

lemma hd_validate_field:
  "validate st \<noteq> [] \<Longrightarrow>
   err_field (hd (validate st)) =
     (case first_failing st of
        None \<Rightarrow> None
      | Some k \<Rightarrow> map_option (\<lambda>_. k) (get_field k st))"
  by (auto simp: validate_in_order first_failing_def get_field_def
      name_entry_def email_entry_def message_entry_def)

lemma submit_invalid_focus:
  assumes "validate st \<noteq> []"
  shows "focused (submit st) =
           (case first_failing st of
              None \<Rightarrow> focused st
            | Some k \<Rightarrow> if get_field k st \<noteq> None then Some k else focused st)"
proof -
  have "focused (submit st) =
          (case err_field (hd (validate st)) of None \<Rightarrow> focused st | Some k \<Rightarrow> Some k)"
  proof -
    have "focused (submit st) = focused (forEach_errors 0 (validate st) (clearFormAlerts st))"
      using assms by (simp add: submit_invalid_eq insert_alert_first_def)
    also have "\<dots> = (case validate st of [] \<Rightarrow> focused st
                     | e # _ \<Rightarrow> (case err_field e of None \<Rightarrow> focused st | Some k \<Rightarrow> Some k))"
      unfolding forEach_errors_focus clearFormAlerts_frame ..
    finally show ?thesis using assms by (cases "validate st") simp_all
  qed
  then show ?thesis
    by (auto simp: hd_validate_field [OF assms] split: option.splits)
qed


lemma submit_valid_eq:
  assumes "validate st = []"
  shows "submit st =
     setTimeout (SendDone (submitBtn st \<noteq> None)) 900
       ((clearFormAlerts st)\<lparr>submitBtn := map_option sending_button (submitBtn st)\<rparr>)"
proof (cases "submitBtn st")
  case None
  then have eq: "(clearFormAlerts st)\<lparr>submitBtn := None\<rparr> = clearFormAlerts st"
    by (cases st) (simp add: clearFormAlerts_def)
  have "submit st = setTimeout (SendDone False) 900 (clearFormAlerts st)"
    using None assms by (simp add: submit_def Let_def clearFormAlerts_frame)
  also have "\<dots> = setTimeout (SendDone False) 900 ((clearFormAlerts st)\<lparr>submitBtn := None\<rparr>)"
    by (simp only: eq)
  finally show ?thesis using None by simp
next
  case (Some b)
  then show ?thesis
    using assms by (simp add: submit_def Let_def sending_button_def clearFormAlerts_frame)
qed

lemma submit_valid_button:
  "validate st = [] \<Longrightarrow> submitBtn (submit st) = map_option sending_button (submitBtn st)"
  by (simp add: submit_valid_eq setTimeout_def)

lemma submit_valid_timers:
  "validate st = [] \<Longrightarrow>
   timers (submit st) = timers st @ [(900, SendDone (submitBtn st \<noteq> None))]"
  by (simp add: submit_valid_eq setTimeout_def clearFormAlerts_frame)

lemma send_done_alerts:
  "form_alerts (run_callback (SendDone hb) st) = (next_id st, success_banner) # form_alerts st"
  by (simp add: Let_def setTimeout_def form_reset_def insert_alert_first_def success_banner_def)

lemma send_done_fields:
  "nameEl (run_callback (SendDone hb) st) = map_option reset_field (nameEl st)"
  "emailEl (run_callback (SendDone hb) st) = map_option reset_field (emailEl st)"
  "messageEl (run_callback (SendDone hb) st) = map_option reset_field (messageEl st)"
  by (simp_all add: Let_def setTimeout_def form_reset_def insert_alert_first_def)

lemma send_done_button:
  "submitBtn (run_callback (SendDone hb) st) =
     (if hb then map_option ready_button (submitBtn st) else submitBtn st)"
  by (simp add: Let_def setTimeout_def form_reset_def insert_alert_first_def
      ready_button_def [abs_def])

lemma send_done_timers:
  "timers (run_callback (SendDone hb) st) = timers st @ [(8000, RemoveAlert (next_id st))]"
  by (simp add: Let_def setTimeout_def form_reset_def insert_alert_first_def)

lemma remove_alert_gone: "i \<notin> fst ` set (form_alerts (run_callback (RemoveAlert i) st))"
  by auto

lemma remove_alert_button: "submitBtn (run_callback (RemoveAlert i) st) = submitBtn st"
  by simp

lemma validate_button_irrelevant: "validate (st\<lparr>submitBtn := x\<rparr>) = validate st"
  by (simp add: validate_def Let_def)

lemma all_bad_form_invalid:
  "name_invalid all_bad_form" "email_invalid all_bad_form" "message_invalid all_bad_form"
  by (simp_all add: name_invalid_def email_invalid_def message_invalid_def all_bad_form_def
      form_with_def text_field_def trimmed_value_def trim_def is_space_def str_def
      email_accepted_def anchored_test_def emailRe_def not_space_at_def)

lemma labelled_form_valid:
  "\<not> name_invalid labelled_form" "\<not> email_invalid labelled_form"
  "\<not> message_invalid labelled_form"
  by (simp_all add: name_invalid_def email_invalid_def message_invalid_def labelled_form_def
      form_with_def text_field_def trimmed_value_def trim_def is_space_def str_def
      email_accepted_def anchored_test_def emailRe_def not_space_at_def)

lemma no_name_form_facts:
  "name_invalid no_name_form" "\<not> email_invalid no_name_form" "message_invalid no_name_form"
  by (simp_all add: name_invalid_def email_invalid_def message_invalid_def no_name_form_def
      form_with_def text_field_def trimmed_value_def trim_def is_space_def str_def
      email_accepted_def anchored_test_def emailRe_def not_space_at_def)

lemma no_name_bad_email_form_facts:
  "name_invalid no_name_bad_email_form" "email_invalid no_name_bad_email_form"
  "\<not> message_invalid no_name_bad_email_form"
  by (simp_all add: name_invalid_def email_invalid_def message_invalid_def
      no_name_bad_email_form_def
      form_with_def text_field_def trimmed_value_def trim_def is_space_def str_def
      email_accepted_def anchored_test_def emailRe_def not_space_at_def)

text \<open>The literal content of the nodes the handler creates.\<close>

lemma str_append: "str a @ str b = str (a @ b)"
  by (simp add: str_def)

lemma summary_banner_literal:
  "summary_banner =
     \<lparr>node_class = str ''form-alert form-alert--error'', node_role = str ''alert'',
      node_text = str ''Please fix the errors in the form and try again.''\<rparr>"
  by (simp add: summary_banner_def createAlertMessage_def summary_msg_def str_append)

lemma success_banner_literal:
  "success_banner =
     \<lparr>node_class = str ''form-alert form-alert--success'', node_role = str ''alert'',
      node_text = str ''Thanks! Your message has been sent. We will reply within 24 hours.''\<rparr>"
  by (simp add: success_banner_def createAlertMessage_def success_msg_def str_append)

lemma error_class_not_success:
  "str ''form-alert form-alert--error'' \<noteq> str ''form-alert form-alert--success''"
  by (simp add: str_def)

lemma after_invalid_submit_literal:
  "after_invalid_submit failing msg f =
     (if failing
      then f\<lparr>field_classes :=
               filter (\<lambda>t. t \<noteq> str ''input-error'') (field_classes f) @ [str ''input-error''],
             field_errors :=
               \<lparr>node_class = str ''field-error'', node_role = str ''alert'', node_text = msg\<rparr>
               # field_errors f\<rparr>
      else f\<lparr>field_classes := filter (\<lambda>t. t \<noteq> str ''input-error'') (field_classes f)\<rparr>)"
  by (simp add: after_invalid_submit_def add_inline_error_def remove_input_error_def
      classList_add_def classList_remove_def contains_def field_error_node_def)

lemma entries_literal:
  "name_entry st = \<lparr>err_field = map_option (\<lambda>_. NameField) (nameEl st),
                     err_msg = str ''Please enter your name (2+ characters).''\<rparr>"
  "email_entry st = \<lparr>err_field = map_option (\<lambda>_. EmailField) (emailEl st),
                      err_msg = str ''Please enter a valid email address.''\<rparr>"
  "message_entry st = \<lparr>err_field = map_option (\<lambda>_. MessageField) (messageEl st),
                        err_msg = str ''Please enter a message (10+ characters).''\<rparr>"
  by (simp_all add: name_entry_def email_entry_def message_entry_def
      name_msg_def email_msg_def message_msg_def)

lemma remove_alert_exact:
  "form_alerts (run_callback (RemoveAlert i) st) = filter (\<lambda>p. fst p \<noteq> i) (form_alerts st)"
  by (simp add: case_prod_unfold)

lemma prefilled_form_valid:
  "\<not> name_invalid prefilled_form" "\<not> email_invalid prefilled_form"
  "\<not> message_invalid prefilled_form"
  by (simp_all add: name_invalid_def email_invalid_def message_invalid_def prefilled_form_def
      trimmed_value_def trim_def is_space_def str_def
      email_accepted_def anchored_test_def emailRe_def not_space_at_def)

section \<open>Contact form: results\<close>

text \<open>
  C1, as the code has it. When at least one validator fails (trimmed name shorter than 2,
  email not accepted, trimmed message shorter than 10), all three validators have been
  evaluated in the order name, email, message; every failing field whose element exists
  gets the class \<open>input-error\<close> and its own new \<open>div.field-error\<close> with \<open>role="alert"\<close> and
  the field's message, the other fields only lose the class; focus goes to the first
  failing field when that field's element exists and stays where it was otherwise; the
  form's only alert is the summary of class \<open>form-alert form-alert--error\<close>, inserted as
  first child, so no alert of class \<open>form-alert form-alert--success\<close> is in the form; no
  timer is scheduled and the submit button is left as it was.
\<close>

theorem submit_invalid_feedback:
  assumes "name_invalid st \<or> email_invalid st \<or> message_invalid st"
  shows "validate st =
           (if name_invalid st
            then [\<lparr>err_field = map_option (\<lambda>_. NameField) (nameEl st),
                   err_msg = str ''Please enter your name (2+ characters).''\<rparr>]
            else []) @
           (if email_invalid st
            then [\<lparr>err_field = map_option (\<lambda>_. EmailField) (emailEl st),
                   err_msg = str ''Please enter a valid email address.''\<rparr>]
            else []) @
           (if message_invalid st
            then [\<lparr>err_field = map_option (\<lambda>_. MessageField) (messageEl st),
                   err_msg = str ''Please enter a message (10+ characters).''\<rparr>]
            else []) \<and>
         nameEl (submit st) =
           map_option
             (\<lambda>f. if name_invalid st
                  then f\<lparr>field_classes :=
                           filter (\<lambda>t. t \<noteq> str ''input-error'') (field_classes f)
                           @ [str ''input-error''],
                         field_errors :=
                           \<lparr>node_class = str ''field-error'', node_role = str ''alert'',
                            node_text = str ''Please enter your name (2+ characters).''\<rparr>
                           # field_errors f\<rparr>
                  else f\<lparr>field_classes :=
                           filter (\<lambda>t. t \<noteq> str ''input-error'') (field_classes f)\<rparr>)
             (nameEl st) \<and>
         emailEl (submit st) =
           map_option
             (\<lambda>f. if email_invalid st
                  then f\<lparr>field_classes :=
                           filter (\<lambda>t. t \<noteq> str ''input-error'') (field_classes f)
                           @ [str ''input-error''],
                         field_errors :=
                           \<lparr>node_class = str ''field-error'', node_role = str ''alert'',
                            node_text = str ''Please enter a valid email address.''\<rparr>
                           # field_errors f\<rparr>
                  else f\<lparr>field_classes :=
                           filter (\<lambda>t. t \<noteq> str ''input-error'') (field_classes f)\<rparr>)
             (emailEl st) \<and>
         messageEl (submit st) =
           map_option
             (\<lambda>f. if message_invalid st
                  then f\<lparr>field_classes :=
                           filter (\<lambda>t. t \<noteq> str ''input-error'') (field_classes f)
                           @ [str ''input-error''],
                         field_errors :=
                           \<lparr>node_class = str ''field-error'', node_role = str ''alert'',
                            node_text = str ''Please enter a message (10+ characters).''\<rparr>
                           # field_errors f\<rparr>
                  else f\<lparr>field_classes :=
                           filter (\<lambda>t. t \<noteq> str ''input-error'') (field_classes f)\<rparr>)
             (messageEl st) \<and>
         focused (submit st) =
           (case first_failing st of
              None \<Rightarrow> focused st
            | Some k \<Rightarrow> if get_field k st \<noteq> None then Some k else focused st) \<and>
         form_alerts (submit st) =
           [(next_id st,
             \<lparr>node_class = str ''form-alert form-alert--error'', node_role = str ''alert'',
              node_text = str ''Please fix the errors in the form and try again.''\<rparr>)] \<and>
         str ''form-alert form-alert--success''
           \<notin> set (map (\<lambda>p. node_class (snd p)) (form_alerts (submit st))) \<and>
         timers (submit st) = timers st \<and>
         submitBtn (submit st) = submitBtn st"
proof -
  from assms have ne: "validate st \<noteq> []" by (simp add: validate_Nil_iff)
  have v: "validate st =
           (if name_invalid st
            then [\<lparr>err_field = map_option (\<lambda>_. NameField) (nameEl st),
                   err_msg = str ''Please enter your name (2+ characters).''\<rparr>]
            else []) @
           (if email_invalid st
            then [\<lparr>err_field = map_option (\<lambda>_. EmailField) (emailEl st),
                   err_msg = str ''Please enter a valid email address.''\<rparr>]
            else []) @
           (if message_invalid st
            then [\<lparr>err_field = map_option (\<lambda>_. MessageField) (messageEl st),
                   err_msg = str ''Please enter a message (10+ characters).''\<rparr>]
            else [])"
    using validate_in_order [of st] unfolding entries_literal .
  have n: "nameEl (submit st) =
           map_option
             (\<lambda>f. if name_invalid st
                  then f\<lparr>field_classes :=
                           filter (\<lambda>t. t \<noteq> str ''input-error'') (field_classes f)
                           @ [str ''input-error''],
                         field_errors :=
                           \<lparr>node_class = str ''field-error'', node_role = str ''alert'',
                            node_text = str ''Please enter your name (2+ characters).''\<rparr>
                           # field_errors f\<rparr>
                  else f\<lparr>field_classes :=
                           filter (\<lambda>t. t \<noteq> str ''input-error'') (field_classes f)\<rparr>)
             (nameEl st)"
    using nameEl_submit_invalid [OF ne]
    unfolding after_invalid_submit_literal [abs_def] name_msg_def .
  have e: "emailEl (submit st) =
           map_option
             (\<lambda>f. if email_invalid st
                  then f\<lparr>field_classes :=
                           filter (\<lambda>t. t \<noteq> str ''input-error'') (field_classes f)
                           @ [str ''input-error''],
                         field_errors :=
                           \<lparr>node_class = str ''field-error'', node_role = str ''alert'',
                            node_text = str ''Please enter a valid email address.''\<rparr>
                           # field_errors f\<rparr>
                  else f\<lparr>field_classes :=
                           filter (\<lambda>t. t \<noteq> str ''input-error'') (field_classes f)\<rparr>)
             (emailEl st)"
    using emailEl_submit_invalid [OF ne]
    unfolding after_invalid_submit_literal [abs_def] email_msg_def .
  have m: "messageEl (submit st) =
           map_option
             (\<lambda>f. if message_invalid st
                  then f\<lparr>field_classes :=
                           filter (\<lambda>t. t \<noteq> str ''input-error'') (field_classes f)
                           @ [str ''input-error''],
                         field_errors :=
                           \<lparr>node_class = str ''field-error'', node_role = str ''alert'',
                            node_text = str ''Please enter a message (10+ characters).''\<rparr>
                           # field_errors f\<rparr>
                  else f\<lparr>field_classes :=
                           filter (\<lambda>t. t \<noteq> str ''input-error'') (field_classes f)\<rparr>)
             (messageEl st)"
    using messageEl_submit_invalid [OF ne]
    unfolding after_invalid_submit_literal [abs_def] message_msg_def .
  have a: "form_alerts (submit st) =
           [(next_id st,
             \<lparr>node_class = str ''form-alert form-alert--error'', node_role = str ''alert'',
              node_text = str ''Please fix the errors in the form and try again.''\<rparr>)]"
    using submit_invalid_banner [OF ne] unfolding summary_banner_literal .
  have s: "str ''form-alert form-alert--success''
           \<notin> set (map (\<lambda>p. node_class (snd p)) (form_alerts (submit st)))"
    unfolding a using error_class_not_success by simp
  show ?thesis
    using v n e m a s submit_invalid_focus [OF ne] submit_invalid_frame [OF ne]
    by blast
qed

theorem submit_invalid_feedback_witness:
  "(name_invalid all_bad_form \<or> email_invalid all_bad_form \<or> message_invalid all_bad_form) \<and>
   validate all_bad_form =
     [\<lparr>err_field = Some NameField, err_msg = str ''Please enter your name (2+ characters).''\<rparr>,
      \<lparr>err_field = Some EmailField, err_msg = str ''Please enter a valid email address.''\<rparr>,
      \<lparr>err_field = Some MessageField,
       err_msg = str ''Please enter a message (10+ characters).''\<rparr>] \<and>
   nameEl (submit all_bad_form) =
     Some \<lparr>field_value = str ''A'', field_default = [], field_classes = [str ''input-error''],
           field_errors =
             [\<lparr>node_class = str ''field-error'', node_role = str ''alert'',
               node_text = str ''Please enter your name (2+ characters).''\<rparr>]\<rparr> \<and>
   emailEl (submit all_bad_form) =
     Some \<lparr>field_value = str ''bad'', field_default = [], field_classes = [str ''input-error''],
           field_errors =
             [\<lparr>node_class = str ''field-error'', node_role = str ''alert'',
               node_text = str ''Please enter a valid email address.''\<rparr>]\<rparr> \<and>
   messageEl (submit all_bad_form) =
     Some \<lparr>field_value = str ''short'', field_default = [],
           field_classes = [str ''input-error''],
           field_errors =
             [\<lparr>node_class = str ''field-error'', node_role = str ''alert'',
               node_text = str ''Please enter a message (10+ characters).''\<rparr>]\<rparr> \<and>
   focused (submit all_bad_form) = Some NameField \<and>
   form_alerts (submit all_bad_form) =
     [(0, \<lparr>node_class = str ''form-alert form-alert--error'', node_role = str ''alert'',
           node_text = str ''Please fix the errors in the form and try again.''\<rparr>)] \<and>
   timers (submit all_bad_form) = [] \<and>
   submitBtn (submit all_bad_form) = Some \<lparr>btn_disabled = False, btn_text = str ''Send''\<rparr>"
proof -
  have h: "name_invalid all_bad_form \<or> email_invalid all_bad_form \<or> message_invalid all_bad_form"
    using all_bad_form_invalid by simp
  have els: "nameEl all_bad_form = Some (text_field ''A'')"
    "emailEl all_bad_form = Some (text_field ''bad'')"
    "messageEl all_bad_form = Some (text_field ''short'')"
    "submitBtn all_bad_form = Some \<lparr>btn_disabled = False, btn_text = str ''Send''\<rparr>"
    "next_id all_bad_form = 0" "timers all_bad_form = []"
    by (simp_all add: all_bad_form_def form_with_def)
  show ?thesis
    using h submit_invalid_feedback [OF h] all_bad_form_invalid
    by (simp add: els first_failing_def get_field_def text_field_def)
qed

text \<open>
  C1 as stated says that focus always moves to the first failing field. On a form without
  a name input, with a valid email and a too short message, the first failing field is the
  (missing) name field, the message field fails and exists, and no field receives focus.
\<close>

theorem focus_first_failing_counterexample:
  "name_invalid no_name_form \<and> first_failing no_name_form = Some NameField \<and>
   message_invalid no_name_form \<and> messageEl no_name_form \<noteq> None \<and>
   focused (submit no_name_form) \<noteq> first_failing no_name_form \<and>
   focused (submit no_name_form) = None"
proof -
  have ne: "validate no_name_form \<noteq> []"
    using no_name_form_facts by (simp add: validate_Nil_iff)
  have ff: "first_failing no_name_form = Some NameField"
    using no_name_form_facts by (simp add: first_failing_def)
  have els: "nameEl no_name_form = None" "focused no_name_form = None"
    "messageEl no_name_form \<noteq> None"
    by (simp_all add: no_name_form_def form_with_def)
  show ?thesis
    using submit_invalid_focus [OF ne] no_name_form_facts
    by (simp add: ff els get_field_def)
qed

text \<open>
  C10. When the first failing field in validation order has no element in the form, the
  handler moves focus to no field; the missing element is skipped, the other failing
  fields still get their class and inline error node, and the summary banner is shown.
\<close>

theorem missing_first_field_no_focus:
  assumes "first_failing st = Some k" and "get_field k st = None"
  shows "focused (submit st) = focused st \<and>
         nameEl (submit st) =
           map_option (after_invalid_submit (name_invalid st) name_msg) (nameEl st) \<and>
         emailEl (submit st) =
           map_option (after_invalid_submit (email_invalid st) email_msg) (emailEl st) \<and>
         messageEl (submit st) =
           map_option (after_invalid_submit (message_invalid st) message_msg) (messageEl st) \<and>
         form_alerts (submit st) = [(next_id st, summary_banner)]"
proof -
  from assms(1) have ne: "validate st \<noteq> []"
    using first_failing_None_iff [of st] by simp
  have "focused (submit st) = focused st"
    using submit_invalid_focus [OF ne] assms by simp
  then show ?thesis
    using nameEl_submit_invalid [OF ne] emailEl_submit_invalid [OF ne]
      messageEl_submit_invalid [OF ne] submit_invalid_banner [OF ne]
    by blast
qed

theorem missing_first_field_no_focus_witness:
  "first_failing no_name_bad_email_form = Some NameField \<and>
   get_field NameField no_name_bad_email_form = None \<and>
   focused (submit no_name_bad_email_form) = None \<and>
   nameEl (submit no_name_bad_email_form) = None \<and>
   map_option field_errors (emailEl (submit no_name_bad_email_form))
     = Some [field_error_node email_msg] \<and>
   map_option field_classes (emailEl (submit no_name_bad_email_form))
     = Some [str ''input-error''] \<and>
   map_option field_errors (messageEl (submit no_name_bad_email_form)) = Some [] \<and>
   form_alerts (submit no_name_bad_email_form) = [(0, summary_banner)]"
proof -
  have ff: "first_failing no_name_bad_email_form = Some NameField"
    using no_name_bad_email_form_facts by (simp add: first_failing_def)
  have els: "nameEl no_name_bad_email_form = None"
    "emailEl no_name_bad_email_form = Some (text_field ''jane@example'')"
    "messageEl no_name_bad_email_form = Some (text_field ''Hello, this is a real inquiry.'')"
    "next_id no_name_bad_email_form = 0" "focused no_name_bad_email_form = None"
    by (simp_all add: no_name_bad_email_form_def form_with_def)
  have gf: "get_field NameField no_name_bad_email_form = None"
    by (simp add: get_field_def els)
  show ?thesis
    using missing_first_field_no_focus [OF ff gf] no_name_bad_email_form_facts
    by (simp add: ff gf els after_invalid_submit_def
        add_inline_error_def remove_input_error_def text_field_def classList_add_def
        classList_remove_def contains_def)
qed

text \<open>
  C2. When all three fields pass, the handler disables the submit button, labels it
  \<open>Sending...\<close> and schedules one timer with delay 900. Whatever the form looks like when
  that timer fires (\<open>later\<close>), its callback inserts as first child the banner of class
  \<open>form-alert form-alert--success\<close> with \<open>role="alert"\<close> and the thank-you text, sets every
  field's value back to its default value, re-enables the button the submission had found
  and labels it \<open>Send Inquiry\<close>, and schedules a timer with delay 8000 whose callback
  removes that banner and no other alert.
\<close>

theorem submit_valid_sends:
  assumes "\<not> name_invalid st" and "\<not> email_invalid st" and "\<not> message_invalid st"
  shows "submitBtn (submit st) =
           map_option (\<lambda>b. b\<lparr>btn_disabled := True, btn_text := str ''Sending...''\<rparr>)
             (submitBtn st) \<and>
         timers (submit st) = timers st @ [(900, SendDone (submitBtn st \<noteq> None))] \<and>
         form_alerts (run_callback (SendDone (submitBtn st \<noteq> None)) later) =
           (next_id later,
            \<lparr>node_class = str ''form-alert form-alert--success'', node_role = str ''alert'',
             node_text =
               str ''Thanks! Your message has been sent. We will reply within 24 hours.''\<rparr>)
           # form_alerts later \<and>
         nameEl (run_callback (SendDone (submitBtn st \<noteq> None)) later) =
           map_option (\<lambda>f. f\<lparr>field_value := field_default f\<rparr>) (nameEl later) \<and>
         emailEl (run_callback (SendDone (submitBtn st \<noteq> None)) later) =
           map_option (\<lambda>f. f\<lparr>field_value := field_default f\<rparr>) (emailEl later) \<and>
         messageEl (run_callback (SendDone (submitBtn st \<noteq> None)) later) =
           map_option (\<lambda>f. f\<lparr>field_value := field_default f\<rparr>) (messageEl later) \<and>
         submitBtn (run_callback (SendDone (submitBtn st \<noteq> None)) later) =
           (if submitBtn st \<noteq> None
            then map_option (\<lambda>b. b\<lparr>btn_disabled := False, btn_text := str ''Send Inquiry''\<rparr>)
                   (submitBtn later)
            else submitBtn later) \<and>
         timers (run_callback (SendDone (submitBtn st \<noteq> None)) later) =
           timers later @ [(8000, RemoveAlert (next_id later))] \<and>
         form_alerts (run_callback (RemoveAlert (next_id later)) final) =
           filter (\<lambda>p. fst p \<noteq> next_id later) (form_alerts final) \<and>
         next_id later \<notin> fst ` set (form_alerts (run_callback (RemoveAlert (next_id later)) final))"
proof -
  from assms have v: "validate st = []" by (simp add: validate_Nil_iff)
  have b: "submitBtn (submit st) =
           map_option (\<lambda>b. b\<lparr>btn_disabled := True, btn_text := str ''Sending...''\<rparr>)
             (submitBtn st)"
    using submit_valid_button [OF v] unfolding sending_button_def [abs_def] .
  have a: "form_alerts (run_callback (SendDone (submitBtn st \<noteq> None)) later) =
           (next_id later,
            \<lparr>node_class = str ''form-alert form-alert--success'', node_role = str ''alert'',
             node_text =
               str ''Thanks! Your message has been sent. We will reply within 24 hours.''\<rparr>)
           # form_alerts later"
    using send_done_alerts [of "submitBtn st \<noteq> None" later]
    unfolding success_banner_literal .
  have f: "nameEl (run_callback (SendDone (submitBtn st \<noteq> None)) later) =
             map_option (\<lambda>f. f\<lparr>field_value := field_default f\<rparr>) (nameEl later)"
    "emailEl (run_callback (SendDone (submitBtn st \<noteq> None)) later) =
             map_option (\<lambda>f. f\<lparr>field_value := field_default f\<rparr>) (emailEl later)"
    "messageEl (run_callback (SendDone (submitBtn st \<noteq> None)) later) =
             map_option (\<lambda>f. f\<lparr>field_value := field_default f\<rparr>) (messageEl later)"
    using send_done_fields [of "submitBtn st \<noteq> None" later]
    unfolding reset_field_def [abs_def] by blast+
  have r: "submitBtn (run_callback (SendDone (submitBtn st \<noteq> None)) later) =
           (if submitBtn st \<noteq> None
            then map_option (\<lambda>b. b\<lparr>btn_disabled := False, btn_text := str ''Send Inquiry''\<rparr>)
                   (submitBtn later)
            else submitBtn later)"
    using send_done_button [of "submitBtn st \<noteq> None" later]
    unfolding ready_button_def [abs_def] .
  show ?thesis
    using b a f r submit_valid_timers [OF v]
      send_done_timers [of "submitBtn st \<noteq> None" later]
      remove_alert_exact [of "next_id later" final]
      remove_alert_gone [of "next_id later" final]
    by blast
qed

lemma prefilled_form_submit:
  "submit prefilled_form =
     prefilled_form
       \<lparr>submitBtn := Some \<lparr>btn_disabled = True, btn_text = str ''Sending...''\<rparr>,
        timers := [(900, SendDone True)]\<rparr>"
proof -
  have v: "validate prefilled_form = []"
    using prefilled_form_valid by (simp add: validate_Nil_iff)
  show ?thesis
    unfolding submit_valid_eq [OF v]
    by (simp add: prefilled_form_def setTimeout_def clearFormAlerts_def
        remove_input_error_def classList_remove_def sending_button_def str_def)
qed

theorem submit_valid_sends_witness:
  "\<not> name_invalid prefilled_form \<and> \<not> email_invalid prefilled_form \<and>
   \<not> message_invalid prefilled_form \<and>
   submitBtn (submit prefilled_form)
     = Some \<lparr>btn_disabled = True, btn_text = str ''Sending...''\<rparr> \<and>
   timers (submit prefilled_form) = [(900, SendDone True)] \<and>
   form_alerts (run_callback (SendDone True) (submit prefilled_form)) =
     [(0, \<lparr>node_class = str ''form-alert form-alert--success'', node_role = str ''alert'',
           node_text =
             str ''Thanks! Your message has been sent. We will reply within 24 hours.''\<rparr>)] \<and>
   nameEl (run_callback (SendDone True) (submit prefilled_form)) =
     Some \<lparr>field_value = str ''Your name'', field_default = str ''Your name'',
           field_classes = [str ''wide''], field_errors = []\<rparr> \<and>
   emailEl (run_callback (SendDone True) (submit prefilled_form)) =
     Some \<lparr>field_value = str ''you@mail.io'', field_default = str ''you@mail.io'',
           field_classes = [], field_errors = []\<rparr> \<and>
   messageEl (run_callback (SendDone True) (submit prefilled_form)) =
     Some \<lparr>field_value = str ''Hi'', field_default = str ''Hi'',
           field_classes = [], field_errors = []\<rparr> \<and>
   submitBtn (run_callback (SendDone True) (submit prefilled_form))
     = Some \<lparr>btn_disabled = False, btn_text = str ''Send Inquiry''\<rparr> \<and>
   timers (run_callback (SendDone True) (submit prefilled_form))
     = [(900, SendDone True), (8000, RemoveAlert 0)] \<and>
   form_alerts
     (run_callback (RemoveAlert 0) (run_callback (SendDone True) (submit prefilled_form))) = []"
proof -
  have els: "submitBtn prefilled_form = Some \<lparr>btn_disabled = False, btn_text = str ''Send''\<rparr>"
    "timers prefilled_form = []"
    by (simp_all add: prefilled_form_def)
  have sub: "next_id (submit prefilled_form) = 0" "form_alerts (submit prefilled_form) = []"
    "nameEl (submit prefilled_form) =
       Some \<lparr>field_value = str ''Jane Doe'', field_default = str ''Your name'',
             field_classes = [str ''wide''], field_errors = []\<rparr>"
    "emailEl (submit prefilled_form) =
       Some \<lparr>field_value = str ''jane@example.com'', field_default = str ''you@mail.io'',
             field_classes = [], field_errors = []\<rparr>"
    "messageEl (submit prefilled_form) =
       Some \<lparr>field_value = str ''Hello, this is a real inquiry.'', field_default = str ''Hi'',
             field_classes = [], field_errors = []\<rparr>"
    unfolding prefilled_form_submit by (simp_all add: prefilled_form_def)
  have sd: "form_alerts (run_callback (SendDone True) (submit prefilled_form)) =
     [(0, \<lparr>node_class = str ''form-alert form-alert--success'', node_role = str ''alert'',
           node_text =
             str ''Thanks! Your message has been sent. We will reply within 24 hours.''\<rparr>)]"
    using submit_valid_sends [OF prefilled_form_valid, of "submit prefilled_form"]
    by (simp add: els sub del: run_callback.simps)
  show ?thesis
    using prefilled_form_valid
      submit_valid_sends [OF prefilled_form_valid, of "submit prefilled_form"
        "run_callback (SendDone True) (submit prefilled_form)"]
    by (simp add: els sub sd del: run_callback.simps)
qed

text \<open>
  C9. After a successful simulated send the button's label is the fixed string
  \<open>Send Inquiry\<close>: the result does not depend on the label the button had before the
  submission (\<open>originalText\<close> is read and never used), removing the banner later does not
  touch the button, and a button whose label was different does not get it back.
\<close>

theorem label_not_restored:
  assumes "\<not> name_invalid st" and "\<not> email_invalid st" and "\<not> message_invalid st"
    and "submitBtn st = Some b"
  shows "timers (submit st) = timers st @ [(900, SendDone True)] \<and>
         map_option btn_text (submitBtn (run_callback (SendDone True) (submit st)))
           = Some (str ''Send Inquiry'') \<and>
         run_callback (SendDone True) (submit (st\<lparr>submitBtn := Some (b\<lparr>btn_text := other\<rparr>)\<rparr>))
           = run_callback (SendDone True) (submit st) \<and>
         submitBtn (run_callback (RemoveAlert i) (run_callback (SendDone True) (submit st)))
           = submitBtn (run_callback (SendDone True) (submit st)) \<and>
         (btn_text b \<noteq> str ''Send Inquiry'' \<longrightarrow>
            map_option btn_text (submitBtn (run_callback (SendDone True) (submit st)))
              \<noteq> Some (btn_text b))"
proof -
  from assms have v: "validate st = []" by (simp add: validate_Nil_iff)
  then have v': "validate (st\<lparr>submitBtn := Some (b\<lparr>btn_text := other\<rparr>)\<rparr>) = []"
    by (simp add: validate_button_irrelevant)
  have t: "timers (submit st) = timers st @ [(900, SendDone True)]"
    using submit_valid_timers [OF v] assms(4) by simp
  have l: "map_option btn_text (submitBtn (run_callback (SendDone True) (submit st)))
             = Some (str ''Send Inquiry'')"
    using submit_valid_button [OF v] assms(4)
    by (simp add: send_done_button ready_button_def sending_button_def
        del: run_callback.simps)
  have e: "run_callback (SendDone True) (submit (st\<lparr>submitBtn := Some (b\<lparr>btn_text := other\<rparr>)\<rparr>))
             = run_callback (SendDone True) (submit st)"
    unfolding submit_valid_eq [OF v] submit_valid_eq [OF v']
    using assms(4)
    by (simp add: Let_def setTimeout_def form_reset_def insert_alert_first_def
        clearFormAlerts_def sending_button_def)
  show ?thesis
    using t l e remove_alert_button [of i "run_callback (SendDone True) (submit st)"]
    by (auto simp del: run_callback.simps)
qed

theorem label_not_restored_witness:
  "\<not> name_invalid labelled_form \<and> \<not> email_invalid labelled_form \<and>
   \<not> message_invalid labelled_form \<and>
   map_option btn_text (submitBtn labelled_form) = Some (str ''Contact us'') \<and>
   str ''Contact us'' \<noteq> str ''Send Inquiry'' \<and>
   map_option btn_text (submitBtn (run_callback (SendDone True) (submit labelled_form)))
     = Some (str ''Send Inquiry'') \<and>
   map_option btn_text (submitBtn (run_callback (SendDone True) (submit labelled_form)))
     \<noteq> Some (str ''Contact us'')"
proof -
  have b: "submitBtn labelled_form = Some \<lparr>btn_disabled = False, btn_text = str ''Contact us''\<rparr>"
    by (simp add: labelled_form_def form_with_def)
  have d: "str ''Contact us'' \<noteq> str ''Send Inquiry''" by (simp add: str_def)
  show ?thesis
    using labelled_form_valid label_not_restored [OF labelled_form_valid b] d
    by (simp add: b)
qed

end
